theory Spec2Isabelle
  imports Complex_Main "HOL-Library.Log_Nat" "HOL-Library.Multiset"
begin

section \<open>Recipe availability analysis (analyze-recipes.js)\<close>

text \<open>
  The development embeds the analytical part of \<^verbatim>\<open>src/src/analyze-recipes.js\<close>:
  the function \<^verbatim>\<open>analyzeRecipeAvailability\<close> (lines 89-132) and, from
  \<^verbatim>\<open>generateReport\<close>, the three \<^verbatim>\<open>filter\<close> calls of the summary
  (lines 147-149) and the sort by makeability (lines 184-194).
\<close>

subsection \<open>Strings and the built-ins \<^verbatim>\<open>toLowerCase\<close> and \<^verbatim>\<open>trim\<close>\<close>

text \<open>
  A JavaScript string is modelled as a \<^typ>\<open>string\<close> whose characters are read as the
  code points U+0000 to U+00FF. On that range \<^verbatim>\<open>String.prototype.toLowerCase\<close> maps
  A-Z and the capital letters U+00C0 to U+00DE (the multiplication sign U+00D7 apart) to the
  letter 32 code points above and leaves every other character alone, and
  \<^verbatim>\<open>String.prototype.trim\<close> strips the white space and line terminators
  TAB, LF, VT, FF, CR, SP and NBSP from both ends.
\<close>

definition isWhiteSpace :: "char \<Rightarrow> bool" where
  "isWhiteSpace c = (let n = (of_char c :: nat) in (9 \<le> n \<and> n \<le> 13) \<or> n = 32 \<or> n = 160)"

definition lowerChar :: "char \<Rightarrow> char" where
  "lowerChar c = (let n = (of_char c :: nat) in
     if (65 \<le> n \<and> n \<le> 90) \<or> (192 \<le> n \<and> n \<le> 222 \<and> n \<noteq> 215)
     then char_of (n + 32) else c)"

definition toLowerCase :: "string \<Rightarrow> string" where
  "toLowerCase s = map lowerChar s"

definition trimStart :: "string \<Rightarrow> string" where
  "trimStart s = dropWhile isWhiteSpace s"

definition trimEnd :: "string \<Rightarrow> string" where
  "trimEnd s = rev (dropWhile isWhiteSpace (rev s))"

definition trim :: "string \<Rightarrow> string" where
  "trim s = trimEnd (trimStart s)"

subsection \<open>Data model\<close>

text \<open>
  The records follow the object literals of \<^verbatim>\<open>getMockInventory\<close> and
  \<^verbatim>\<open>getMockRecipes\<close>. A \<^verbatim>\<open>name\<close> property is a \<^typ>\<open>string option\<close>:
  \<^term>\<open>None\<close> stands for a property that is absent, \<^verbatim>\<open>undefined\<close> or
  \<^verbatim>\<open>null\<close>, the three values on which the optional chain \<^verbatim>\<open>?.\<close>
  short-circuits.
\<close>

record InventoryItem =
  item_id :: string
  item_name :: "string option"
  volumeRemaining :: rat
  volumeTotal :: rat
  item_unit :: string

record IngredientRequirement =
  ingredient_name :: "string option"
  ingredient_measure :: string

record Recipe =
  recipe_id :: string
  recipe_name :: string
  category :: string
  thumbnailUrl :: string
  ingredients :: "IngredientRequirement list"

datatype Availability = Full | Partial | NoneAvailable

record AvailabilityReport =
  recipe :: Recipe
  availability :: Availability
  missingIngredients :: "string option list"
  availableIngredients :: "string option list"
  missingCount :: nat
  totalIngredients :: nat
  percentageAvailable :: int

subsection \<open>Name matching (lines 95-97)\<close>

text \<open>
  \<^verbatim>\<open>x.name?.toLowerCase().trim()\<close>: the whole chain is skipped, with value
  \<^verbatim>\<open>undefined\<close>, when the name is nullish.
\<close>

definition normalizedName :: "string option \<Rightarrow> string option" where
  "normalizedName n = (case n of None \<Rightarrow> None | Some s \<Rightarrow> Some (trim (toLowerCase s)))"

text \<open>
  The callback of \<^verbatim>\<open>inventory.find\<close>; \<^verbatim>\<open>===\<close> on two values that are each a
  string or \<^verbatim>\<open>undefined\<close> is equality of the options.
\<close>

definition nameMatches :: "InventoryItem \<Rightarrow> IngredientRequirement \<Rightarrow> bool" where
  "nameMatches item ingredient =
     (normalizedName (item_name item) = normalizedName (ingredient_name ingredient))"

subsection \<open>Double-precision arithmetic of the percentage (lines 108-111)\<close>

text \<open>
  JavaScript numbers are IEEE 754 binary64 values. A finite double is a rational, and each
  arithmetic operation returns the exact result rounded to the nearest double, ties to the
  even significand. \<^term>\<open>round64\<close> is that rounding for a 53-bit significand with an
  unbounded exponent: it agrees with binary64 on every value whose magnitude lies in the
  normal range, from \<open>2 powi (-1022)\<close> up to \<open>2 powi 1024\<close>. The operands here are array
  lengths (below \<open>2 ^ 32\<close>, so exact doubles), their quotient and its product with 100,
  all in that range or zero.
\<close>

definition roundTiesToEven :: "rat \<Rightarrow> int" where
  "roundTiesToEven q = (let f = \<lfloor>q\<rfloor>; r = q - of_int f in
     if r < 1 / 2 then f else if 1 / 2 < r then f + 1 else if even f then f else f + 1)"

text \<open>The exponent \<open>e\<close> with \<open>2 powi e \<le> q < 2 powi (e + 1)\<close>, for \<open>q > 0\<close>.\<close>

definition binade :: "rat \<Rightarrow> int" where
  "binade q = (case quotient_of q of (p, d) \<Rightarrow>
     (let b = bitlen p - bitlen d in if 2 powi b \<le> q then b else b - 1))"

definition round64 :: "rat \<Rightarrow> rat" where
  "round64 q = (if q = 0 then 0 else
     (let u = 2 powi (binade \<bar>q\<bar> - 52) in sgn q * of_int (roundTiesToEven (\<bar>q\<bar> / u)) * u))"

definition fdiv :: "rat \<Rightarrow> rat \<Rightarrow> rat" where
  "fdiv x y = round64 (x / y)"

definition fmul :: "rat \<Rightarrow> rat \<Rightarrow> rat" where
  "fmul x y = round64 (x * y)"

text \<open>
  \<^verbatim>\<open>Math.round\<close> returns the integer closest to its argument, the larger one on a tie;
  it is exact on a double.
\<close>

definition Math_round :: "rat \<Rightarrow> int" where
  "Math_round x = \<lfloor>x + 1 / 2\<rfloor>"

text \<open>
  Rounding half up as the specification words it: the fractional part decides, and a
  fractional part of one half goes up.
\<close>

definition roundHalfUp :: "rat \<Rightarrow> int" where
  "roundHalfUp x = (if x - of_int \<lfloor>x\<rfloor> < 1 / 2 then \<lfloor>x\<rfloor> else \<lfloor>x\<rfloor> + 1)"

definition percentage :: "nat \<Rightarrow> nat \<Rightarrow> int" where
  "percentage totalN missingN =
     (if totalN > 0
      then Math_round (fmul (fdiv (of_nat totalN - of_nat missingN) (of_nat totalN)) 100)
      else 0)"

subsection \<open>The analyzer (lines 89-132)\<close>

text \<open>
  The body of the \<^verbatim>\<open>forEach\<close> callback, on the pair of arrays
  \<open>(missingIngredients, availableIngredients)\<close> that it pushes to. An inventory item is an
  object, so the result of \<^verbatim>\<open>find\<close> is truthy exactly when an item was found.
\<close>

definition classifyIngredient ::
  "InventoryItem list \<Rightarrow> string option list \<times> string option list \<Rightarrow> IngredientRequirement
     \<Rightarrow> string option list \<times> string option list" where
  "classifyIngredient inventory acc ingredient =
     (case find (\<lambda>item. nameMatches item ingredient) inventory of
        Some inventoryItem \<Rightarrow> (fst acc, snd acc @ [ingredient_name ingredient])
      | None \<Rightarrow> (fst acc @ [ingredient_name ingredient], snd acc))"

definition classifyAvailability :: "nat \<Rightarrow> nat \<Rightarrow> Availability" where
  "classifyAvailability missingN totalN =
     (if missingN = 0 then Full
      else if missingN < totalN then Partial
      else NoneAvailable)"

definition analyzeRecipe :: "InventoryItem list \<Rightarrow> Recipe \<Rightarrow> AvailabilityReport" where
  "analyzeRecipe inventory r =
     (let lists = foldl (classifyIngredient inventory) ([], []) (ingredients r);
          totalN = length (ingredients r);
          missingN = length (fst lists)
      in \<lparr> recipe = r,
           availability = classifyAvailability missingN totalN,
           missingIngredients = fst lists,
           availableIngredients = snd lists,
           missingCount = missingN,
           totalIngredients = totalN,
           percentageAvailable = percentage totalN missingN \<rparr>)"

definition analyzeRecipeAvailability ::
  "Recipe list \<Rightarrow> InventoryItem list \<Rightarrow> AvailabilityReport list" where
  "analyzeRecipeAvailability recipes inventory = map (analyzeRecipe inventory) recipes"

text \<open>
  What the \<^verbatim>\<open>find\<close> of line 95 decides, as a predicate on the ingredient's name: some
  item of the inventory has the same normalised name.
\<close>

definition inStock :: "InventoryItem list \<Rightarrow> string option \<Rightarrow> bool" where
  "inStock inventory n =
     (normalizedName n \<in> set (map (\<lambda>item. normalizedName (item_name item)) inventory))"

subsection \<open>Arrays in a store\<close>

text \<open>
  \<^verbatim>\<open>generateReport\<close> passes the array \<^verbatim>\<open>analysis\<close> to \<^verbatim>\<open>filter\<close>, to the
  spread \<^verbatim>\<open>[...analysis]\<close> and the copy to \<^verbatim>\<open>sort\<close>, which sorts its receiver in
  place. To say which arrays these calls write, arrays live in a store: the array at address
  \<open>a\<close> is \<open>h ! a\<close>, and a new array takes the next free address.
\<close>

type_synonym 'a store = "'a list list"

definition alloc :: "'a list \<Rightarrow> 'a store \<Rightarrow> nat \<times> 'a store" where
  "alloc xs h = (length h, h @ [xs])"

text \<open>\<^verbatim>\<open>arr.filter(p)\<close> builds a new array and leaves \<^verbatim>\<open>arr\<close> alone.\<close>

definition Array_filter :: "('a \<Rightarrow> bool) \<Rightarrow> nat \<Rightarrow> 'a store \<Rightarrow> nat \<times> 'a store" where
  "Array_filter p a h = alloc (filter p (h ! a)) h"

text \<open>\<^verbatim>\<open>[...arr]\<close> builds a new array with the elements of \<^verbatim>\<open>arr\<close>.\<close>

definition spread :: "nat \<Rightarrow> 'a store \<Rightarrow> nat \<times> 'a store" where
  "spread a h = alloc (h ! a) h"

text \<open>
  \<^verbatim>\<open>Array.prototype.sort\<close> with a comparator. The language requires the sort to be
  stable (ECMAScript 2019; the repository asks for Node.js 18 or later), and the comparator
  of line 184 is a consistent one, so the result is the one of any stable sort; it is
  modelled by insertion, where an element is put before the first one it does not compare
  greater than.
\<close>

fun insertSorted :: "('a \<Rightarrow> 'a \<Rightarrow> int) \<Rightarrow> 'a \<Rightarrow> 'a list \<Rightarrow> 'a list" where
  "insertSorted cmp x [] = [x]"
| "insertSorted cmp x (y # ys) =
     (if cmp x y \<le> 0 then x # y # ys else y # insertSorted cmp x ys)"

definition sortWith :: "('a \<Rightarrow> 'a \<Rightarrow> int) \<Rightarrow> 'a list \<Rightarrow> 'a list" where
  "sortWith cmp xs = foldr (insertSorted cmp) xs []"

text \<open>The receiver is sorted in place, and returned.\<close>

definition Array_sort :: "('a \<Rightarrow> 'a \<Rightarrow> int) \<Rightarrow> nat \<Rightarrow> 'a store \<Rightarrow> nat \<times> 'a store" where
  "Array_sort cmp a h = (a, h[a := sortWith cmp (h ! a)])"

subsection \<open>Summary counts (lines 147-154)\<close>

record AnalysisSummary =
  fullyMakeable :: nat
  partiallyMakeable :: nat
  notMakeable :: nat

definition summarize :: "AvailabilityReport list \<Rightarrow> AnalysisSummary" where
  "summarize analysis =
     \<lparr> fullyMakeable = length (filter (\<lambda>a. availability a = Full) analysis),
       partiallyMakeable = length (filter (\<lambda>a. availability a = Partial) analysis),
       notMakeable = length (filter (\<lambda>a. availability a = NoneAvailable) analysis) \<rparr>"

text \<open>
  The same on the store: the three filtered arrays are allocated one after the other, and
  the counts printed are their lengths.
\<close>

definition summarizeStore ::
  "nat \<Rightarrow> AvailabilityReport store \<Rightarrow> AnalysisSummary \<times> AvailabilityReport store" where
  "summarizeStore analysis h =
     (case Array_filter (\<lambda>a. availability a = Full) analysis h of (full, h1) \<Rightarrow>
      case Array_filter (\<lambda>a. availability a = Partial) analysis h1 of (partial, h2) \<Rightarrow>
      case Array_filter (\<lambda>a. availability a = NoneAvailable) analysis h2 of (none, h3) \<Rightarrow>
        (\<lparr> fullyMakeable = length (h3 ! full),
            partiallyMakeable = length (h3 ! partial),
            notMakeable = length (h3 ! none) \<rparr>, h3))"

subsection \<open>Sort by makeability (lines 184-194)\<close>

definition availabilityOrder :: "Availability \<Rightarrow> int" where
  "availabilityOrder a = (case a of Full \<Rightarrow> 3 | Partial \<Rightarrow> 2 | NoneAvailable \<Rightarrow> 1)"

definition compareReports :: "AvailabilityReport \<Rightarrow> AvailabilityReport \<Rightarrow> int" where
  "compareReports a b =
     (let aDiff = availabilityOrder (availability a);
          bDiff = availabilityOrder (availability b)
      in if aDiff \<noteq> bDiff then bDiff - aDiff
         else percentageAvailable b - percentageAvailable a)"

definition sortedByMakeability :: "AvailabilityReport list \<Rightarrow> AvailabilityReport list" where
  "sortedByMakeability analysis = sortWith compareReports analysis"

definition sortedByMakeabilityStore ::
  "nat \<Rightarrow> AvailabilityReport store \<Rightarrow> nat \<times> AvailabilityReport store" where
  "sortedByMakeabilityStore analysis h =
     (case spread analysis h of (copy, h1) \<Rightarrow> Array_sort compareReports copy h1)"

text \<open>
  The order the sort is expected to establish, stated on the availability values and not
  on the comparator's table: \<open>full\<close> comes before \<open>partial\<close> and \<open>none\<close>, and
  \<open>partial\<close> before \<open>none\<close>.
\<close>

fun outranks :: "Availability \<Rightarrow> Availability \<Rightarrow> bool" where
  "outranks Full Partial = True"
| "outranks Full NoneAvailable = True"
| "outranks Partial NoneAvailable = True"
| "outranks _ _ = False"

text \<open>
  A report comes no later than another when its availability outranks the other's, or the
  two have the same availability and its percentage is at least as high.
\<close>

definition rankedBefore :: "AvailabilityReport \<Rightarrow> AvailabilityReport \<Rightarrow> bool" where
  "rankedBefore a b =
     (outranks (availability a) (availability b)
      \<or> (availability a = availability b
          \<and> percentageAvailable b \<le> percentageAvailable a))"

text \<open>
  The normalised names that the items of an inventory do have; an item without a name adds
  nothing.
\<close>

definition definedNames :: "InventoryItem list \<Rightarrow> string set" where
  "definedNames inventory =
     set (List.map_filter (\<lambda>item. normalizedName (item_name item)) inventory)"

subsection \<open>The script's mock data (lines 14-87) and further inputs\<close>

definition getMockInventory :: "InventoryItem list" where
  "getMockInventory =
     [\<lparr> item_id = ''1'', item_name = Some ''Vodka'', volumeRemaining = 750,
        volumeTotal = 750, item_unit = ''ml'' \<rparr>,
      \<lparr> item_id = ''2'', item_name = Some ''Lime juice'', volumeRemaining = 200,
        volumeTotal = 500, item_unit = ''ml'' \<rparr>,
      \<lparr> item_id = ''3'', item_name = Some ''Simple syrup'', volumeRemaining = 100,
        volumeTotal = 250, item_unit = ''ml'' \<rparr>,
      \<lparr> item_id = ''4'', item_name = Some ''Gin'', volumeRemaining = 500,
        volumeTotal = 750, item_unit = ''ml'' \<rparr>,
      \<lparr> item_id = ''5'', item_name = Some ''White rum'', volumeRemaining = 300,
        volumeTotal = 750, item_unit = ''ml'' \<rparr>,
      \<lparr> item_id = ''6'', item_name = Some ''Sugar'', volumeRemaining = 50,
        volumeTotal = 500, item_unit = ''g'' \<rparr>,
      \<lparr> item_id = ''7'', item_name = Some ''Mint leaves'', volumeRemaining = 20,
        volumeTotal = 50, item_unit = ''leaves'' \<rparr>,
      \<lparr> item_id = ''8'', item_name = Some ''Soda water'', volumeRemaining = 1000,
        volumeTotal = 1000, item_unit = ''ml'' \<rparr>,
      \<lparr> item_id = ''9'', item_name = Some ''Tequila'', volumeRemaining = 600,
        volumeTotal = 750, item_unit = ''ml'' \<rparr>,
      \<lparr> item_id = ''10'', item_name = Some ''Triple sec'', volumeRemaining = 200,
        volumeTotal = 350, item_unit = ''ml'' \<rparr>]"

definition mojito :: Recipe where
  "mojito =
     \<lparr> recipe_id = ''recipe1'', recipe_name = ''Mojito'', category = ''Cocktail'',
       thumbnailUrl = ''https://example.com/mojito.jpg'',
       ingredients =
        [\<lparr> ingredient_name = Some ''White rum'', ingredient_measure = ''2 oz'' \<rparr>,
         \<lparr> ingredient_name = Some ''Lime juice'', ingredient_measure = ''1 oz'' \<rparr>,
         \<lparr> ingredient_name = Some ''Sugar'', ingredient_measure = ''2 tsp'' \<rparr>,
         \<lparr> ingredient_name = Some ''Mint leaves'', ingredient_measure = ''6 leaves'' \<rparr>,
         \<lparr> ingredient_name = Some ''Soda water'', ingredient_measure = ''Top up'' \<rparr>] \<rparr>"

definition margarita :: Recipe where
  "margarita =
     \<lparr> recipe_id = ''recipe2'', recipe_name = ''Margarita'', category = ''Cocktail'',
       thumbnailUrl = ''https://example.com/margarita.jpg'',
       ingredients =
        [\<lparr> ingredient_name = Some ''Tequila'', ingredient_measure = ''2 oz'' \<rparr>,
         \<lparr> ingredient_name = Some ''Triple sec'', ingredient_measure = ''1 oz'' \<rparr>,
         \<lparr> ingredient_name = Some ''Lime juice'', ingredient_measure = ''1 oz'' \<rparr>,
         \<lparr> ingredient_name = Some ''Salt'', ingredient_measure = ''1 pinch'' \<rparr>] \<rparr>"

definition oldFashioned :: Recipe where
  "oldFashioned =
     \<lparr> recipe_id = ''recipe3'', recipe_name = ''Old Fashioned'', category = ''Classic'',
       thumbnailUrl = ''https://example.com/old-fashioned.jpg'',
       ingredients =
        [\<lparr> ingredient_name = Some ''Bourbon'', ingredient_measure = ''2 oz'' \<rparr>,
         \<lparr> ingredient_name = Some ''Sugar cube'', ingredient_measure = ''1'' \<rparr>,
         \<lparr> ingredient_name = Some ''Angostura bitters'', ingredient_measure = ''2-3 dashes'' \<rparr>,
         \<lparr> ingredient_name = Some ''Orange twist'', ingredient_measure = ''1'' \<rparr>] \<rparr>"

definition ginAndTonic :: Recipe where
  "ginAndTonic =
     \<lparr> recipe_id = ''recipe4'', recipe_name = ''Gin and Tonic'', category = ''Highball'',
       thumbnailUrl = ''https://example.com/gin-tonic.jpg'',
       ingredients =
        [\<lparr> ingredient_name = Some ''Gin'', ingredient_measure = ''2 oz'' \<rparr>,
         \<lparr> ingredient_name = Some ''Tonic water'', ingredient_measure = ''4 oz'' \<rparr>,
         \<lparr> ingredient_name = Some ''Lime wedge'', ingredient_measure = ''1'' \<rparr>] \<rparr>"

definition moscowMule :: Recipe where
  "moscowMule =
     \<lparr> recipe_id = ''recipe5'', recipe_name = ''Moscow Mule'', category = ''Cocktail'',
       thumbnailUrl = ''https://example.com/moscow-mule.jpg'',
       ingredients =
        [\<lparr> ingredient_name = Some ''Vodka'', ingredient_measure = ''2 oz'' \<rparr>,
         \<lparr> ingredient_name = Some ''Lime juice'', ingredient_measure = ''0.5 oz'' \<rparr>,
         \<lparr> ingredient_name = Some ''Ginger beer'', ingredient_measure = ''4 oz'' \<rparr>] \<rparr>"

definition getMockRecipes :: "Recipe list" where
  "getMockRecipes = [mojito, margarita, oldFashioned, ginAndTonic, moscowMule]"

text \<open>A recipe whose ingredient list is empty.\<close>

definition emptyRecipe :: Recipe where
  "emptyRecipe =
     \<lparr> recipe_id = ''recipe6'', recipe_name = ''Water'', category = ''Soft drink'',
       thumbnailUrl = [], ingredients = [] \<rparr>"

text \<open>An inventory item and an ingredient line that both lack the \<^verbatim>\<open>name\<close> property.\<close>

definition unnamedItem :: InventoryItem where
  "unnamedItem =
     \<lparr> item_id = ''11'', item_name = None, volumeRemaining = 10, volumeTotal = 10,
       item_unit = ''ml'' \<rparr>"

definition unnamedIngredient :: IngredientRequirement where
  "unnamedIngredient = \<lparr> ingredient_name = None, ingredient_measure = ''1 oz'' \<rparr>"

definition unnamedRecipe :: Recipe where
  "unnamedRecipe =
     \<lparr> recipe_id = ''recipe7'', recipe_name = ''Mystery'', category = ''Cocktail'',
       thumbnailUrl = [], ingredients = [unnamedIngredient] \<rparr>"

text \<open>A recipe of 200 ingredient lines, the last of which is not in the mock inventory.\<close>

definition punch :: Recipe where
  "punch =
     \<lparr> recipe_id = ''recipe8'', recipe_name = ''Punch'', category = ''Punch'',
       thumbnailUrl = [],
       ingredients =
         replicate 199 \<lparr> ingredient_name = Some ''Gin'', ingredient_measure = ''1 dash'' \<rparr>
         @ [\<lparr> ingredient_name = Some ''Salt'', ingredient_measure = ''1 pinch'' \<rparr>] \<rparr>"

section \<open>Properties of the analyzer\<close>

subsection \<open>The loop over the ingredients\<close>

lemma find_nameMatches:
  "(find (\<lambda>item. nameMatches item ingredient) inventory = None)
     = (\<not> inStock inventory (ingredient_name ingredient))"
  unfolding find_None_iff inStock_def nameMatches_def set_map image_iff
  by (metis (no_types))

lemma classifyIngredient_eq:
  "classifyIngredient inventory acc ingredient =
     (if inStock inventory (ingredient_name ingredient)
      then (fst acc, snd acc @ [ingredient_name ingredient])
      else (fst acc @ [ingredient_name ingredient], snd acc))"
proof (cases "find (\<lambda>item. nameMatches item ingredient) inventory")
  case None
  then show ?thesis using find_nameMatches[of ingredient inventory]
    by (simp add: classifyIngredient_def)
next
  case (Some a)
  then show ?thesis using find_nameMatches[of ingredient inventory]
    by (simp add: classifyIngredient_def)
qed

lemma foldl_classifyIngredient:
  "foldl (classifyIngredient inventory) acc ings =
     (fst acc @ filter (\<lambda>n. \<not> inStock inventory n) (map ingredient_name ings),
      snd acc @ filter (inStock inventory) (map ingredient_name ings))"
proof (induction ings arbitrary: acc)
  case Nil
  then show ?case by simp
next
  case (Cons i ings)
  show ?case
    unfolding foldl_Cons Cons.IH classifyIngredient_eq[of inventory acc i] by simp
qed

lemma missingIngredients_eq:
  "missingIngredients (analyzeRecipe inventory r) =
     filter (\<lambda>n. \<not> inStock inventory n) (map ingredient_name (ingredients r))"
  by (simp add: analyzeRecipe_def Let_def foldl_classifyIngredient)

lemma availableIngredients_eq:
  "availableIngredients (analyzeRecipe inventory r) =
     filter (inStock inventory) (map ingredient_name (ingredients r))"
  by (simp add: analyzeRecipe_def Let_def foldl_classifyIngredient)

lemma missingCount_eq:
  "missingCount (analyzeRecipe inventory r) =
     length (missingIngredients (analyzeRecipe inventory r))"
  by (simp add: analyzeRecipe_def Let_def)

lemma totalIngredients_eq:
  "totalIngredients (analyzeRecipe inventory r) = length (ingredients r)"
  by (simp add: analyzeRecipe_def Let_def)

lemma availability_eq:
  "availability (analyzeRecipe inventory r) =
     classifyAvailability (missingCount (analyzeRecipe inventory r))
       (totalIngredients (analyzeRecipe inventory r))"
  by (simp add: analyzeRecipe_def Let_def)

lemma percentageAvailable_eq:
  "percentageAvailable (analyzeRecipe inventory r) =
     percentage (totalIngredients (analyzeRecipe inventory r))
       (missingCount (analyzeRecipe inventory r))"
  by (simp add: analyzeRecipe_def Let_def)

lemma recipe_analyzeRecipe: "recipe (analyzeRecipe inventory r) = r"
  by (simp add: analyzeRecipe_def Let_def)

lemma missingCount_le_total:
  "missingCount (analyzeRecipe inventory r) \<le> totalIngredients (analyzeRecipe inventory r)"
proof -
  have "length (filter (\<lambda>n. \<not> inStock inventory n) (map ingredient_name (ingredients r)))
          \<le> length (map ingredient_name (ingredients r))"
    by (rule length_filter_le)
  then show ?thesis
    by (simp add: missingCount_eq missingIngredients_eq totalIngredients_eq)
qed

subsection \<open>The two ingredient lists\<close>

text \<open>
  Claim C2. The available and the missing ingredients of a report are the recipe's
  ingredient names that are in stock and those that are not, each in the recipe's order:
  no name is in both lists, every name is in one of them, the two lists together hold each
  name as often as the recipe does, and \<open>missingCount\<close> plus the number of available
  ingredients is \<open>totalIngredients\<close>, the length of the recipe's ingredient list.
\<close>

theorem report_partition:
  "availableIngredients (analyzeRecipe inventory r)
     = filter (inStock inventory) (map ingredient_name (ingredients r))
   \<and> missingIngredients (analyzeRecipe inventory r)
     = filter (\<lambda>n. \<not> inStock inventory n) (map ingredient_name (ingredients r))
   \<and> set (availableIngredients (analyzeRecipe inventory r))
       \<inter> set (missingIngredients (analyzeRecipe inventory r)) = {}
   \<and> set (availableIngredients (analyzeRecipe inventory r))
       \<union> set (missingIngredients (analyzeRecipe inventory r))
     = set (map ingredient_name (ingredients r))
   \<and> mset (availableIngredients (analyzeRecipe inventory r))
       + mset (missingIngredients (analyzeRecipe inventory r))
     = mset (map ingredient_name (ingredients r))
   \<and> missingCount (analyzeRecipe inventory r)
     = length (missingIngredients (analyzeRecipe inventory r))
   \<and> totalIngredients (analyzeRecipe inventory r) = length (ingredients r)
   \<and> missingCount (analyzeRecipe inventory r)
       + length (availableIngredients (analyzeRecipe inventory r))
     = totalIngredients (analyzeRecipe inventory r)"
proof -
  let ?rep = "analyzeRecipe inventory r"
  let ?names = "map ingredient_name (ingredients r)"
  have a: "availableIngredients ?rep = filter (inStock inventory) ?names"
    by (rule availableIngredients_eq)
  have m: "missingIngredients ?rep = filter (\<lambda>n. \<not> inStock inventory n) ?names"
    by (rule missingIngredients_eq)
  have c: "missingCount ?rep = length (missingIngredients ?rep)"
    by (rule missingCount_eq)
  have t: "totalIngredients ?rep = length (ingredients r)"
    by (rule totalIngredients_eq)
  have d: "set (availableIngredients ?rep) \<inter> set (missingIngredients ?rep) = {}"
    unfolding a m by auto
  have u: "set (availableIngredients ?rep) \<union> set (missingIngredients ?rep) = set ?names"
    unfolding a m by auto
  have ms: "mset (availableIngredients ?rep) + mset (missingIngredients ?rep) = mset ?names"
    unfolding a m by simp
  have s: "missingCount ?rep + length (availableIngredients ?rep) = totalIngredients ?rep"
    unfolding c t a m using sum_length_filter_compl[of "inStock inventory" ?names] by simp
  from a m c t d u ms s show ?thesis by blast
qed

theorem report_partition_witness:
  "availableIngredients (analyzeRecipe getMockInventory margarita)
     = [Some ''Tequila'', Some ''Triple sec'', Some ''Lime juice'']
   \<and> missingIngredients (analyzeRecipe getMockInventory margarita) = [Some ''Salt'']
   \<and> missingCount (analyzeRecipe getMockInventory margarita) = 1
   \<and> totalIngredients (analyzeRecipe getMockInventory margarita) = 4"
proof -
  have names: "map ingredient_name (ingredients margarita)
      = [Some ''Tequila'', Some ''Triple sec'', Some ''Lime juice'', Some ''Salt'']"
    by (simp add: margarita_def)
  have av: "filter (inStock getMockInventory)
        [Some ''Tequila'', Some ''Triple sec'', Some ''Lime juice'', Some ''Salt'']
      = [Some ''Tequila'', Some ''Triple sec'', Some ''Lime juice'']"
    by code_simp
  have mi: "filter (\<lambda>n. \<not> inStock getMockInventory n)
        [Some ''Tequila'', Some ''Triple sec'', Some ''Lime juice'', Some ''Salt'']
      = [Some ''Salt'']"
    by code_simp
  have len: "length (ingredients margarita) = 4"
    by (simp add: margarita_def)
  from report_partition[of getMockInventory margarita] show ?thesis
    unfolding names av mi len by simp
qed

subsection \<open>One report per recipe\<close>

text \<open>
  Claim C8. The analysis of a sequence of recipes has as many reports as there are recipes,
  the report at each position is the one of the recipe at that position, and its
  \<open>recipe\<close> field is that recipe.
\<close>

theorem analyze_one_report_per_recipe:
  "length (analyzeRecipeAvailability recipes inventory) = length recipes
   \<and> map recipe (analyzeRecipeAvailability recipes inventory) = recipes
   \<and> (\<forall>i. i < length recipes \<longrightarrow>
         analyzeRecipeAvailability recipes inventory ! i = analyzeRecipe inventory (recipes ! i)
         \<and> recipe (analyzeRecipeAvailability recipes inventory ! i) = recipes ! i)"
proof -
  have "map recipe (map (analyzeRecipe inventory) recipes) = recipes"
    by (induction recipes) (simp_all add: recipe_analyzeRecipe)
  then show ?thesis
    by (simp add: analyzeRecipeAvailability_def recipe_analyzeRecipe)
qed

theorem analyze_one_report_per_recipe_witness:
  "length (analyzeRecipeAvailability getMockRecipes getMockInventory) = 5
   \<and> map recipe (analyzeRecipeAvailability getMockRecipes getMockInventory) = getMockRecipes
   \<and> (1::nat) < length getMockRecipes
   \<and> recipe (analyzeRecipeAvailability getMockRecipes getMockInventory ! 1) = margarita"
proof -
  note t = analyze_one_report_per_recipe[of getMockRecipes getMockInventory]
  have len: "length getMockRecipes = 5" by (simp add: getMockRecipes_def)
  have nth: "getMockRecipes ! 1 = margarita" by (simp add: getMockRecipes_def)
  have lt: "(1::nat) < length getMockRecipes" by (simp add: len)
  from t have a: "length (analyzeRecipeAvailability getMockRecipes getMockInventory)
      = length getMockRecipes"
    by blast
  from t have b: "map recipe (analyzeRecipeAvailability getMockRecipes getMockInventory)
      = getMockRecipes"
    by blast
  from t lt have c: "recipe (analyzeRecipeAvailability getMockRecipes getMockInventory ! 1)
      = getMockRecipes ! 1"
    by blast
  from a b c lt show ?thesis by (simp only: len nth simp_thms)
qed

subsection \<open>Rounding to double precision\<close>

text \<open>
  \<^term>\<open>binade\<close> finds the exponent of a positive rational, so \<^term>\<open>round64\<close> scales
  its argument to a significand between \<open>2 ^ 52\<close> and \<open>2 ^ 53\<close> before it rounds to an
  integer; the rounded value exceeds a non-negative argument by at most the relative error
  \<open>1 / 2 ^ 53\<close>.
\<close>

lemma bitlen_powi_bounds:
  assumes "0 < (x::int)"
  shows "(2::rat) powi (bitlen x - 1) \<le> of_int x" "(of_int x :: rat) < 2 powi (bitlen x)"
proof -
  from assms have b1: "1 \<le> bitlen x" by (simp add: bitlen_alt_def)
  have lo: "2 ^ nat (bitlen x - 1) \<le> x" and hi: "x < 2 ^ nat (bitlen x)"
    using bitlen_bounds[OF assms] by auto
  have "(of_int (2 ^ nat (bitlen x - 1)) :: rat) \<le> of_int x"
    using lo by (simp only: of_int_le_iff)
  then show "(2::rat) powi (bitlen x - 1) \<le> of_int x"
    using b1 by (simp add: power_int_def)
  have "(of_int x :: rat) < of_int (2 ^ nat (bitlen x))"
    using hi by (simp only: of_int_less_iff)
  then show "(of_int x :: rat) < 2 powi (bitlen x)"
    using b1 by (simp add: power_int_def)
qed

lemma binade_bounds:
  assumes "0 < q"
  shows "2 powi (binade q) \<le> q" "q < 2 powi (binade q + 1)"
proof -
  obtain p d where pd: "quotient_of q = (p, d)" by (cases "quotient_of q")
  have d: "0 < d" using quotient_of_denom_pos[OF pd] .
  have q: "q = of_int p / of_int d" using quotient_of_div[OF pd] .
  have p: "0 < p" using assms d unfolding q by (simp add: zero_less_divide_iff)
  define b where "b = bitlen p - bitlen d"
  have e: "binade q = (if 2 powi b \<le> q then b else b - 1)"
    by (simp add: binade_def pd b_def Let_def)
  have dq: "(0::rat) < of_int d" using d by simp
  have plo: "(2::rat) powi (bitlen p - 1) \<le> of_int p" and phi: "(of_int p :: rat) < 2 powi (bitlen p)"
    using bitlen_powi_bounds[OF p] by auto
  have dlo: "(2::rat) powi (bitlen d - 1) \<le> of_int d" and dhi: "(of_int d :: rat) < 2 powi (bitlen d)"
    using bitlen_powi_bounds[OF d] by auto
  have low: "(2::rat) powi (b - 1) \<le> q"
  proof -
    have "(2::rat) powi (b - 1) * of_int d \<le> 2 powi (b - 1) * 2 powi (bitlen d)"
      using dhi by (intro mult_left_mono) auto
    also have "\<dots> = 2 powi (bitlen p - 1)"
      by (simp add: b_def power_int_add[symmetric])
    also have "\<dots> \<le> of_int p" by (rule plo)
    finally show ?thesis unfolding q using dq by (simp add: pos_le_divide_eq)
  qed
  have high: "q < (2::rat) powi (b + 1)"
  proof -
    have "(of_int p :: rat) < 2 powi (bitlen p)" by (rule phi)
    also have "\<dots> = 2 powi (b + 1) * 2 powi (bitlen d - 1)"
      by (simp add: b_def power_int_add[symmetric])
    also have "\<dots> \<le> 2 powi (b + 1) * of_int d"
      using dlo by (intro mult_left_mono) auto
    finally show ?thesis unfolding q using dq by (simp add: pos_divide_less_eq)
  qed
  show "2 powi (binade q) \<le> q" using low by (simp add: e)
  show "q < 2 powi (binade q + 1)" using high by (auto simp add: e not_le)
qed

lemma roundTiesToEven_cases:
  "roundTiesToEven q = \<lfloor>q\<rfloor> \<and> q - of_int \<lfloor>q\<rfloor> \<le> 1 / 2
   \<or> roundTiesToEven q = \<lfloor>q\<rfloor> + 1 \<and> 1 / 2 \<le> q - of_int \<lfloor>q\<rfloor>"
  by (simp add: roundTiesToEven_def Let_def)

lemma roundTiesToEven_le: "of_int (roundTiesToEven q) \<le> q + 1 / 2"
proof -
  have f: "of_int \<lfloor>q\<rfloor> \<le> q" by simp
  from roundTiesToEven_cases[of q] show ?thesis
  proof (elim disjE conjE)
    assume "roundTiesToEven q = \<lfloor>q\<rfloor>"
    then have "(of_int (roundTiesToEven q) :: rat) = of_int \<lfloor>q\<rfloor>" by simp
    with f show ?thesis by linarith
  next
    assume "roundTiesToEven q = \<lfloor>q\<rfloor> + 1" and h: "1 / 2 \<le> q - of_int \<lfloor>q\<rfloor>"
    then have "(of_int (roundTiesToEven q) :: rat) = of_int \<lfloor>q\<rfloor> + 1" by simp
    with h show ?thesis by linarith
  qed
qed

lemma roundTiesToEven_nonneg: "0 \<le> q \<Longrightarrow> 0 \<le> roundTiesToEven q"
  by (auto simp: roundTiesToEven_def Let_def)

lemma round64_nonneg: "0 \<le> q \<Longrightarrow> 0 \<le> round64 q"
  by (auto simp: round64_def Let_def roundTiesToEven_nonneg zero_le_mult_iff divide_nonneg_pos)

lemma round64_le:
  assumes "0 \<le> q"
  shows "round64 q \<le> q * (1 + 1 / 2 ^ 53)"
proof (cases "q = 0")
  case True
  then show ?thesis by (simp add: round64_def)
next
  case False
  with assms have q: "0 < q" by simp
  define u :: rat where "u = 2 powi (binade q - 52)"
  have u: "0 < u" by (simp add: u_def)
  have r: "round64 q = of_int (roundTiesToEven (q / u)) * u"
    using q by (simp add: round64_def Let_def u_def)
  have "2 powi (binade q) = u * 2 ^ 52"
    unfolding u_def by (simp add: power_int_diff)
  then have uq: "u * 2 ^ 52 \<le> q" using binade_bounds(1)[OF q] by simp
  have "of_int (roundTiesToEven (q / u)) * u \<le> (q / u + 1 / 2) * u"
    using roundTiesToEven_le[of "q / u"] u by (intro mult_right_mono) auto
  also have "\<dots> = q + u / 2" using u by (simp add: field_simps)
  also have "\<dots> \<le> q * (1 + 1 / 2 ^ 53)" using uq by (simp add: field_simps)
  finally show ?thesis by (simp add: r)
qed



text \<open>The double nearest to one tenth, as a check of the rounding.\<close>

lemma round64_tenth: "round64 (1 / 10) = 3602879701896397 / 36028797018963968"
  by code_simp

lemma round64_one: "round64 1 = 1"
  by code_simp

lemma round64_hundred: "round64 100 = 100"
  by code_simp

lemma Math_round_roundHalfUp: "Math_round x = roundHalfUp x"
proof -
  have lo: "of_int \<lfloor>x\<rfloor> \<le> x" and hi: "x < of_int \<lfloor>x\<rfloor> + 1" by linarith+
  show ?thesis
  proof (cases "x - of_int \<lfloor>x\<rfloor> < 1 / 2")
    case True
    have "\<lfloor>x + 1 / 2\<rfloor> = \<lfloor>x\<rfloor>"
    proof (rule floor_unique)
      show "of_int \<lfloor>x\<rfloor> \<le> x + 1 / 2" using lo by linarith
      show "x + 1 / 2 < of_int \<lfloor>x\<rfloor> + 1" using True by linarith
    qed
    with True show ?thesis by (simp add: Math_round_def roundHalfUp_def)
  next
    case False
    have "\<lfloor>x + 1 / 2\<rfloor> = \<lfloor>x\<rfloor> + 1"
    proof (rule floor_unique)
      have "of_int \<lfloor>x\<rfloor> + 1 \<le> x + 1 / 2" using False by linarith
      then show "of_int (\<lfloor>x\<rfloor> + 1) \<le> x + 1 / 2" by simp
      have "x + 1 / 2 < of_int \<lfloor>x\<rfloor> + 1 + 1" using hi by linarith
      then show "x + 1 / 2 < of_int (\<lfloor>x\<rfloor> + 1) + 1" by simp
    qed
    with False show ?thesis by (simp add: Math_round_def roundHalfUp_def)
  qed
qed

lemma Math_round_hundred: "Math_round 100 = 100"
  by code_simp

lemma scaled_ratio_bounds:
  assumes "0 \<le> r" and "r \<le> c"
  shows "0 \<le> fmul (round64 r) 100" "fmul (round64 r) 100 \<le> c * 100 * (1 + 1 / 2 ^ 53) ^ 2"
proof -
  have x0: "0 \<le> round64 r" using assms(1) by (rule round64_nonneg)
  have "round64 r \<le> r * (1 + 1 / 2 ^ 53)" using assms(1) by (rule round64_le)
  also have "\<dots> \<le> c * (1 + 1 / 2 ^ 53)" using assms(2) by (intro mult_right_mono) auto
  finally have x1: "round64 r \<le> c * (1 + 1 / 2 ^ 53)" .
  have y0: "0 \<le> round64 r * 100" using x0 by simp
  show "0 \<le> fmul (round64 r) 100" unfolding fmul_def using y0 by (rule round64_nonneg)
  have "fmul (round64 r) 100 \<le> (round64 r * 100) * (1 + 1 / 2 ^ 53)"
    unfolding fmul_def using y0 by (rule round64_le)
  also have "\<dots> \<le> (c * (1 + 1 / 2 ^ 53) * 100) * (1 + 1 / 2 ^ 53)"
    using x1 by (intro mult_right_mono) auto
  also have "\<dots> = c * 100 * (1 + 1 / 2 ^ 53) ^ 2" by (simp add: power2_eq_square)
  finally show "fmul (round64 r) 100 \<le> c * 100 * (1 + 1 / 2 ^ 53) ^ 2" .
qed

lemma ratio_bounds:
  assumes "m \<le> t"
  shows "0 \<le> ((of_nat t :: rat) - of_nat m) / of_nat t"
    "((of_nat t :: rat) - of_nat m) / of_nat t \<le> 1"
proof -
  have le: "(of_nat m :: rat) \<le> of_nat t" using assms by simp
  then show "0 \<le> ((of_nat t :: rat) - of_nat m) / of_nat t" by simp
  show "((of_nat t :: rat) - of_nat m) / of_nat t \<le> 1"
    by (cases "t = 0") (simp_all add: pos_divide_le_eq)
qed

lemma percentage_nonneg:
  assumes "m \<le> t"
  shows "0 \<le> percentage t m"
proof (cases "0 < t")
  case True
  have "0 \<le> fmul (round64 ((of_nat t - of_nat m) / of_nat t)) 100"
    by (rule scaled_ratio_bounds(1)[OF ratio_bounds[OF assms]])
  then have "0 \<le> fmul (round64 ((of_nat t - of_nat m) / of_nat t)) 100 + 1 / 2" by simp
  then show ?thesis using True by (simp add: percentage_def Math_round_def fdiv_def)
next
  case False
  then show ?thesis by (simp add: percentage_def)
qed

lemma percentage_le_100:
  assumes "m \<le> t"
  shows "percentage t m \<le> 100"
proof (cases "0 < t")
  case True
  have "fmul (round64 ((of_nat t - of_nat m) / of_nat t)) 100
          \<le> 1 * 100 * (1 + 1 / 2 ^ 53) ^ 2"
    by (rule scaled_ratio_bounds(2)[OF ratio_bounds[OF assms]])
  also have "\<dots> < 100 + 1 / 2" by (simp add: power2_eq_square)
  finally have "fmul (round64 ((of_nat t - of_nat m) / of_nat t)) 100 + 1 / 2 < of_int 101"
    by simp
  then have "\<lfloor>fmul (round64 ((of_nat t - of_nat m) / of_nat t)) 100 + 1 / 2\<rfloor> < 101"
    by (simp only: floor_less_iff)
  then show ?thesis using True by (simp add: percentage_def Math_round_def fdiv_def)
next
  case False
  then show ?thesis by (simp add: percentage_def)
qed

text \<open>
  The two roundings of the quotient and of the product show: \<open>23 / 40\<close> times 100 is
  57.49999999999999 in double precision, so the percentage is 57, where exact arithmetic
  would round 57.5 up to 58.
\<close>

lemma percentage_40_17: "percentage 40 17 = 57"
  by code_simp

lemma percentage_none_missing: "0 < t \<Longrightarrow> percentage t 0 = 100"
  by (simp add: percentage_def fdiv_def fmul_def round64_one round64_hundred Math_round_hundred)

lemma percentage_lt_100:
  assumes "0 < m" and "m \<le> t" and "t < 200"
  shows "percentage t m < 100"
proof -
  from assms have t: "0 < t" by simp
  have "(1::rat) \<le> of_nat m" using assms(1) by simp
  then have "((of_nat t :: rat) - of_nat m) / of_nat t \<le> (of_nat t - 1) / of_nat t"
    by (intro divide_right_mono) simp_all
  also have "\<dots> = 1 - 1 / of_nat t" using t by (simp add: field_simps)
  also have "\<dots> \<le> 1 - 1 / 199"
  proof -
    have "(of_nat t :: rat) \<le> 199" using assms(3) by simp
    then have "1 / 199 \<le> 1 / (of_nat t :: rat)" using t by (simp add: frac_le)
    then show ?thesis by simp
  qed
  finally have r: "((of_nat t :: rat) - of_nat m) / of_nat t \<le> 198 / 199" by simp
  have "fmul (round64 ((of_nat t - of_nat m) / of_nat t)) 100
          \<le> (198 / 199) * 100 * (1 + 1 / 2 ^ 53) ^ 2"
    by (rule scaled_ratio_bounds(2)[OF ratio_bounds(1)[OF assms(2)] r])
  also have "\<dots> < 99 + 1 / 2" by (simp add: power2_eq_square)
  finally have "fmul (round64 ((of_nat t - of_nat m) / of_nat t)) 100 + 1 / 2 < of_int 100"
    by simp
  then have "\<lfloor>fmul (round64 ((of_nat t - of_nat m) / of_nat t)) 100 + 1 / 2\<rfloor> < 100"
    by (simp only: floor_less_iff)
  then show ?thesis using t by (simp add: percentage_def Math_round_def fdiv_def)
qed

subsection \<open>The percentage\<close>

text \<open>
  Claim C3, as amended. The percentage of a report is an integer from 0 to 100; it is 0 when
  the recipe has no ingredients, and otherwise the double-precision value of
  \<open>((totalIngredients - missingCount) / totalIngredients) * 100\<close> rounded half up. With
  no ingredient missing (and at least one ingredient) it is 100; that it is 100 only then
  holds for recipes of fewer than 200 ingredients.
\<close>

theorem percentage_properties:
  "0 \<le> percentageAvailable (analyzeRecipe inventory r)
   \<and> percentageAvailable (analyzeRecipe inventory r) \<le> 100
   \<and> (totalIngredients (analyzeRecipe inventory r) = 0
        \<longrightarrow> percentageAvailable (analyzeRecipe inventory r) = 0)
   \<and> (0 < totalIngredients (analyzeRecipe inventory r)
        \<longrightarrow> percentageAvailable (analyzeRecipe inventory r)
            = roundHalfUp (fmul (fdiv
                (of_nat (totalIngredients (analyzeRecipe inventory r))
                   - of_nat (missingCount (analyzeRecipe inventory r)))
                (of_nat (totalIngredients (analyzeRecipe inventory r)))) 100))
   \<and> (0 < totalIngredients (analyzeRecipe inventory r)
        \<and> missingCount (analyzeRecipe inventory r) = 0
        \<longrightarrow> percentageAvailable (analyzeRecipe inventory r) = 100)
   \<and> (0 < totalIngredients (analyzeRecipe inventory r)
        \<and> totalIngredients (analyzeRecipe inventory r) < 200
        \<longrightarrow> (percentageAvailable (analyzeRecipe inventory r) = 100)
            = (missingCount (analyzeRecipe inventory r) = 0))"
proof -
  let ?rep = "analyzeRecipe inventory r"
  let ?t = "totalIngredients ?rep"
  let ?m = "missingCount ?rep"
  have p: "percentageAvailable ?rep = percentage ?t ?m" by (rule percentageAvailable_eq)
  have le: "?m \<le> ?t" by (rule missingCount_le_total)
  have c1: "0 \<le> percentageAvailable ?rep" unfolding p using le by (rule percentage_nonneg)
  have c2: "percentageAvailable ?rep \<le> 100" unfolding p using le by (rule percentage_le_100)
  have c3: "?t = 0 \<longrightarrow> percentageAvailable ?rep = 0"
    unfolding p by (simp add: percentage_def)
  have c4: "0 < ?t \<longrightarrow> percentageAvailable ?rep
      = roundHalfUp (fmul (fdiv (of_nat ?t - of_nat ?m) (of_nat ?t)) 100)"
    unfolding p by (simp add: percentage_def Math_round_roundHalfUp)
  have c5: "0 < ?t \<and> ?m = 0 \<longrightarrow> percentageAvailable ?rep = 100"
    unfolding p by (auto simp: percentage_none_missing)
  have c6: "0 < ?t \<and> ?t < 200 \<longrightarrow> (percentageAvailable ?rep = 100) = (?m = 0)"
  proof (intro impI, elim conjE)
    assume t0: "0 < ?t" and t200: "?t < 200"
    show "(percentageAvailable ?rep = 100) = (?m = 0)"
    proof (cases "?m = 0")
      case True
      with t0 show ?thesis unfolding p by (simp add: percentage_none_missing)
    next
      case False
      then have "percentage ?t ?m < 100" using le t200 by (intro percentage_lt_100) simp_all
      with False show ?thesis unfolding p by simp
    qed
  qed
  from c1 c2 c3 c4 c5 c6 show ?thesis by blast
qed

lemma margarita_counts:
  "totalIngredients (analyzeRecipe getMockInventory margarita) = 4"
  "missingCount (analyzeRecipe getMockInventory margarita) = 1"
  by code_simp+

lemma mojito_counts:
  "totalIngredients (analyzeRecipe getMockInventory mojito) = 5"
  "missingCount (analyzeRecipe getMockInventory mojito) = 0"
  by code_simp+

theorem percentage_properties_witness:
  "0 < totalIngredients (analyzeRecipe getMockInventory margarita)
   \<and> totalIngredients (analyzeRecipe getMockInventory margarita) < 200
   \<and> missingCount (analyzeRecipe getMockInventory margarita) \<noteq> 0
   \<and> percentageAvailable (analyzeRecipe getMockInventory margarita) \<noteq> 100
   \<and> percentageAvailable (analyzeRecipe getMockInventory margarita) \<le> 100
   \<and> 0 < totalIngredients (analyzeRecipe getMockInventory mojito)
   \<and> missingCount (analyzeRecipe getMockInventory mojito) = 0
   \<and> percentageAvailable (analyzeRecipe getMockInventory mojito) = 100
   \<and> totalIngredients (analyzeRecipe getMockInventory emptyRecipe) = 0
   \<and> percentageAvailable (analyzeRecipe getMockInventory emptyRecipe) = 0"
proof -
  have e: "totalIngredients (analyzeRecipe getMockInventory emptyRecipe) = 0"
    by (simp add: totalIngredients_eq emptyRecipe_def)
  from percentage_properties[of getMockInventory margarita]
       percentage_properties[of getMockInventory mojito]
       percentage_properties[of getMockInventory emptyRecipe] e
  show ?thesis by (simp add: margarita_counts mojito_counts)
qed

text \<open>
  The claim as first stated (100 exactly when nothing is missing, for every recipe with an
  ingredient) fails at 200 ingredients with one missing: \<open>199 / 200\<close> times 100 is
  99.5 in double precision, which rounds up to 100.
\<close>

lemma mock_Gin: "inStock getMockInventory (Some ''Gin'')"
  by code_simp

lemma mock_Salt: "\<not> inStock getMockInventory (Some ''Salt'')"
  by code_simp

lemma punch_counts:
  "totalIngredients (analyzeRecipe getMockInventory punch) = 200"
  "missingCount (analyzeRecipe getMockInventory punch) = 1"
proof -
  show "totalIngredients (analyzeRecipe getMockInventory punch) = 200"
    by (simp add: totalIngredients_eq punch_def)
  have "missingIngredients (analyzeRecipe getMockInventory punch) = [Some ''Salt'']"
    by (simp add: missingIngredients_eq punch_def mock_Gin mock_Salt)
  then show "missingCount (analyzeRecipe getMockInventory punch) = 1"
    by (simp add: missingCount_eq)
qed

lemma percentage_200_1: "percentage 200 1 = 100"
  by code_simp

theorem percentage_100_with_missing_counterexample:
  "0 < totalIngredients (analyzeRecipe getMockInventory punch)
   \<and> percentageAvailable (analyzeRecipe getMockInventory punch) = 100
   \<and> missingCount (analyzeRecipe getMockInventory punch) = 1
   \<and> \<not> ((percentageAvailable (analyzeRecipe getMockInventory punch) = 100)
          = (missingCount (analyzeRecipe getMockInventory punch) = 0))"
  by (simp only: percentageAvailable_eq punch_counts percentage_200_1) simp

subsection \<open>The availability class\<close>

lemma availability_characterisation:
  "(availability (analyzeRecipe inventory r) = Full)
     = (missingCount (analyzeRecipe inventory r) = 0)"
  "(availability (analyzeRecipe inventory r) = NoneAvailable)
     = (missingCount (analyzeRecipe inventory r) = totalIngredients (analyzeRecipe inventory r)
        \<and> 0 < totalIngredients (analyzeRecipe inventory r))"
  using missingCount_le_total[of inventory r]
  by (auto simp: availability_eq classifyAvailability_def)

text \<open>
  Claim C1 says that a recipe with no ingredients is classified \<open>none\<close>. The branch of
  line 114 is taken first: on the empty recipe the analyzer reports \<open>full\<close>, next to a
  percentage of 0.
\<close>

theorem empty_recipe_classified_full:
  "totalIngredients (analyzeRecipe getMockInventory emptyRecipe) = 0
   \<and> missingCount (analyzeRecipe getMockInventory emptyRecipe) = 0
   \<and> percentageAvailable (analyzeRecipe getMockInventory emptyRecipe) = 0
   \<and> availability (analyzeRecipe getMockInventory emptyRecipe) = Full"
  by code_simp

subsection \<open>Absent names\<close>

lemma absent_name_never_matches_defined:
  "normalizedName None \<noteq> normalizedName (Some s)"
  by (simp add: normalizedName_def)

text \<open>
  Claim C5 says that an absent name matches nothing, another absent name included. Both
  optional chains of line 96 yield \<^verbatim>\<open>undefined\<close>, which are strictly equal: an
  ingredient without a name is reported available as soon as the inventory holds an item
  without a name.
\<close>

theorem unnamed_ingredient_matches_unnamed_item:
  "nameMatches unnamedItem unnamedIngredient
   \<and> availableIngredients (analyzeRecipe (getMockInventory @ [unnamedItem]) unnamedRecipe) = [None]
   \<and> missingIngredients (analyzeRecipe (getMockInventory @ [unnamedItem]) unnamedRecipe) = []
   \<and> missingCount (analyzeRecipe (getMockInventory @ [unnamedItem]) unnamedRecipe) = 0
   \<and> availability (analyzeRecipe (getMockInventory @ [unnamedItem]) unnamedRecipe) = Full"
  by code_simp

subsection \<open>The name matcher\<close>

lemma isWhiteSpace_lowerChar: "isWhiteSpace (lowerChar c) = isWhiteSpace c"
  by (auto simp: isWhiteSpace_def lowerChar_def Let_def)

lemma dropWhile_toLowerCase:
  "dropWhile isWhiteSpace (map lowerChar s) = map lowerChar (dropWhile isWhiteSpace s)"
  by (induction s) (simp_all add: isWhiteSpace_lowerChar)

lemma trimStart_toLowerCase: "trimStart (toLowerCase s) = toLowerCase (trimStart s)"
  by (simp add: trimStart_def toLowerCase_def dropWhile_toLowerCase)

lemma trimEnd_toLowerCase: "trimEnd (toLowerCase s) = toLowerCase (trimEnd s)"
  by (simp add: trimEnd_def toLowerCase_def dropWhile_toLowerCase rev_map)

lemma trim_toLowerCase: "trim (toLowerCase s) = toLowerCase (trim s)"
  by (simp add: trim_def trimStart_toLowerCase trimEnd_toLowerCase)

text \<open>
  Claim C4. An inventory item and an ingredient line that both have a name match exactly
  when the two names are the same string after trimming and lower-casing; nothing else
  makes two names match. The script lower-cases before it trims, which gives the same
  string. So \<open>" Lime Juice "\<close> matches \<open>"lime juice"\<close>, and does not match the plural
  \<open>"lime juices"\<close>.
\<close>

theorem name_matcher:
  "item_name item = Some a \<Longrightarrow> ingredient_name ingredient = Some b \<Longrightarrow>
     nameMatches item ingredient = (toLowerCase (trim a) = toLowerCase (trim b))"
  by (simp add: nameMatches_def normalizedName_def trim_toLowerCase)

theorem name_matcher_witness:
  "nameMatches
     \<lparr> item_id = ''2'', item_name = Some '' Lime Juice '', volumeRemaining = 200,
       volumeTotal = 500, item_unit = ''ml'' \<rparr>
     \<lparr> ingredient_name = Some ''lime juice'', ingredient_measure = ''1 oz'' \<rparr>
   \<and> \<not> nameMatches
     \<lparr> item_id = ''2'', item_name = Some '' Lime Juice '', volumeRemaining = 200,
       volumeTotal = 500, item_unit = ''ml'' \<rparr>
     \<lparr> ingredient_name = Some ''lime juices'', ingredient_measure = ''1 oz'' \<rparr>"
proof -
  have l: "toLowerCase (trim '' Lime Juice '') = ''lime juice''" by code_simp
  have r: "toLowerCase (trim ''lime juice'') = ''lime juice''" by code_simp
  have p: "toLowerCase (trim ''lime juices'') = ''lime juices''" by code_simp
  show ?thesis
    using name_matcher[of "\<lparr> item_id = ''2'', item_name = Some '' Lime Juice '',
              volumeRemaining = 200, volumeTotal = 500, item_unit = ''ml'' \<rparr>"
            "'' Lime Juice ''"
            "\<lparr> ingredient_name = Some ''lime juice'', ingredient_measure = ''1 oz'' \<rparr>"
            "''lime juice''"]
          name_matcher[of "\<lparr> item_id = ''2'', item_name = Some '' Lime Juice '',
              volumeRemaining = 200, volumeTotal = 500, item_unit = ''ml'' \<rparr>"
            "'' Lime Juice ''"
            "\<lparr> ingredient_name = Some ''lime juices'', ingredient_measure = ''1 oz'' \<rparr>"
            "''lime juices''"]
    by (simp add: l r p)
qed

subsection \<open>What the report depends on\<close>

lemma inStock_cong:
  "set (map (\<lambda>item. normalizedName (item_name item)) inventory)
     = set (map (\<lambda>item. normalizedName (item_name item)) inventory')
   \<Longrightarrow> inStock inventory = inStock inventory'"
  by (rule ext) (simp only: inStock_def)

lemma analyzeRecipe_inStock:
  "inStock inventory = inStock inventory' \<Longrightarrow>
     analyzeRecipe inventory r = analyzeRecipe inventory' r"
  by (simp add: analyzeRecipe_def foldl_classifyIngredient)

lemma analyzeRecipe_cong:
  "set (map (\<lambda>item. normalizedName (item_name item)) inventory)
     = set (map (\<lambda>item. normalizedName (item_name item)) inventory')
   \<Longrightarrow> analyzeRecipe inventory r = analyzeRecipe inventory' r"
  by (rule analyzeRecipe_inStock) (rule inStock_cong)

text \<open>
  The report does not change when the inventory is permuted, when items are repeated or
  repeated items dropped, or when the volumes and the unit of the items are replaced.
\<close>

lemma report_unchanged_by_rearrangement:
  "(set (map (\<lambda>item. normalizedName (item_name item)) inventory)
      = set (map (\<lambda>item. normalizedName (item_name item)) inventory')
    \<longrightarrow> analyzeRecipe inventory r = analyzeRecipe inventory' r)
   \<and> (mset inventory = mset inventory'
    \<longrightarrow> analyzeRecipe inventory r = analyzeRecipe inventory' r)
   \<and> (set inventory = set inventory'
    \<longrightarrow> analyzeRecipe inventory r = analyzeRecipe inventory' r)
   \<and> analyzeRecipe
        (map (\<lambda>item. item\<lparr> volumeRemaining := newRemaining item, volumeTotal := newTotal item,
                            item_unit := newUnit item \<rparr>) inventory) r
      = analyzeRecipe inventory r"
proof (intro conjI impI)
  assume "set (map (\<lambda>item. normalizedName (item_name item)) inventory)
      = set (map (\<lambda>item. normalizedName (item_name item)) inventory')"
  then show "analyzeRecipe inventory r = analyzeRecipe inventory' r"
    by (rule analyzeRecipe_cong)
next
  assume "mset inventory = mset inventory'"
  then have "set inventory = set inventory'" by (rule mset_eq_setD)
  then show "analyzeRecipe inventory r = analyzeRecipe inventory' r"
    by (intro analyzeRecipe_cong) simp
next
  assume "set inventory = set inventory'"
  then show "analyzeRecipe inventory r = analyzeRecipe inventory' r"
    by (intro analyzeRecipe_cong) simp
next
  show "analyzeRecipe
        (map (\<lambda>item. item\<lparr> volumeRemaining := newRemaining item, volumeTotal := newTotal item,
                            item_unit := newUnit item \<rparr>) inventory) r
      = analyzeRecipe inventory r"
    by (intro analyzeRecipe_cong) (simp add: comp_def)
qed

lemma analyzeRecipe_cong_on:
  assumes "\<And>n. n \<in> set (map ingredient_name (ingredients r))
            \<Longrightarrow> inStock inventory n = inStock inventory' n"
  shows "analyzeRecipe inventory r = analyzeRecipe inventory' r"
proof -
  have a: "filter (inStock inventory) (map ingredient_name (ingredients r))
      = filter (inStock inventory') (map ingredient_name (ingredients r))"
    by (rule filter_cong) (simp_all only: assms)
  have m: "filter (\<lambda>n. \<not> inStock inventory n) (map ingredient_name (ingredients r))
      = filter (\<lambda>n. \<not> inStock inventory' n) (map ingredient_name (ingredients r))"
    by (rule filter_cong) (simp_all only: assms)
  show ?thesis
    unfolding analyzeRecipe_def foldl_classifyIngredient Let_def fst_conv snd_conv
      append_Nil a m by (rule refl)
qed

lemma inStock_definedNames:
  "inStock inventory (Some s) = (trim (toLowerCase s) \<in> definedNames inventory)"
proof -
  have "(Some (trim (toLowerCase s))
           \<in> (\<lambda>item. normalizedName (item_name item)) ` set inventory)
        = (trim (toLowerCase s)
           \<in> set (List.map_filter (\<lambda>item. normalizedName (item_name item)) inventory))"
    by (induction inventory) (auto split: option.splits)
  then show ?thesis by (simp add: inStock_def definedNames_def normalizedName_def)
qed

text \<open>
  For a recipe whose ingredient lines all have a name, the report depends on the inventory
  only through the set of normalised names that its items have.
\<close>

lemma report_depends_on_defined_names:
  assumes "None \<notin> set (map ingredient_name (ingredients r))"
    and "definedNames inventory = definedNames inventory'"
  shows "analyzeRecipe inventory r = analyzeRecipe inventory' r"
proof (rule analyzeRecipe_cong_on)
  fix n
  assume n: "n \<in> set (map ingredient_name (ingredients r))"
  with assms(1) obtain s where "n = Some s" by (cases n) auto
  then show "inStock inventory n = inStock inventory' n"
    by (simp only: inStock_definedNames assms(2))
qed

text \<open>
  Claim C10 says that the report depends only on the set of normalised inventory item
  names. The mock inventory with and without an item that has no name have the same
  normalised names, yet the two reports of a recipe with an unnamed ingredient line differ:
  \<open>none\<close> at 0 percent without the unnamed item, \<open>full\<close> at 100 percent with it.
  This is the match of two absent names of line 96 again.
\<close>

theorem unnamed_item_changes_report:
  "definedNames (getMockInventory @ [unnamedItem]) = definedNames getMockInventory
   \<and> analyzeRecipe getMockInventory unnamedRecipe
       \<noteq> analyzeRecipe (getMockInventory @ [unnamedItem]) unnamedRecipe
   \<and> availability (analyzeRecipe getMockInventory unnamedRecipe) = NoneAvailable
   \<and> percentageAvailable (analyzeRecipe getMockInventory unnamedRecipe) = 0
   \<and> availability (analyzeRecipe (getMockInventory @ [unnamedItem]) unnamedRecipe) = Full
   \<and> percentageAvailable (analyzeRecipe (getMockInventory @ [unnamedItem]) unnamedRecipe)
       = 100"
proof -
  have d: "definedNames (getMockInventory @ [unnamedItem]) = definedNames getMockInventory"
    by (simp add: definedNames_def List.map_filter_def unnamedItem_def normalizedName_def)
  have a: "availability (analyzeRecipe getMockInventory unnamedRecipe) = NoneAvailable"
    by code_simp
  have p: "percentageAvailable (analyzeRecipe getMockInventory unnamedRecipe) = 0"
    by code_simp
  have a': "availability (analyzeRecipe (getMockInventory @ [unnamedItem]) unnamedRecipe)
      = Full"
    by code_simp
  have p': "percentageAvailable
        (analyzeRecipe (getMockInventory @ [unnamedItem]) unnamedRecipe) = 100"
    by code_simp
  have "analyzeRecipe getMockInventory unnamedRecipe
      \<noteq> analyzeRecipe (getMockInventory @ [unnamedItem]) unnamedRecipe"
    using a a' by auto
  with d a p a' p' show ?thesis by blast
qed

section \<open>Properties of the summary and of the sort\<close>

subsection \<open>Summary counts\<close>

lemma summarize_total:
  "fullyMakeable (summarize analysis) + partiallyMakeable (summarize analysis)
     + notMakeable (summarize analysis) = length analysis"
proof (induction analysis)
  case Nil
  then show ?case by (simp add: summarize_def)
next
  case (Cons a analysis)
  then show ?case by (cases "availability a") (simp_all add: summarize_def)
qed

lemma summarizeStore_eq:
  "analysis < length h \<Longrightarrow>
     summarizeStore analysis h =
       (summarize (h ! analysis),
        h @ [filter (\<lambda>a. availability a = Full) (h ! analysis),
             filter (\<lambda>a. availability a = Partial) (h ! analysis),
             filter (\<lambda>a. availability a = NoneAvailable) (h ! analysis)])"
  by (simp add: summarizeStore_def Array_filter_def alloc_def summarize_def nth_append)

text \<open>
  Claim C7. The three counts of the summary are the numbers of reports of each
  availability and add up to the number of reports; the three \<^verbatim>\<open>filter\<close> calls
  allocate new arrays and leave the array of reports, and every other array of the store,
  as it was.
\<close>

theorem summarize_counts:
  "analysis < length h \<Longrightarrow>
     fst (summarizeStore analysis h) = summarize (h ! analysis)
     \<and> fullyMakeable (fst (summarizeStore analysis h))
         + partiallyMakeable (fst (summarizeStore analysis h))
         + notMakeable (fst (summarizeStore analysis h)) = length (h ! analysis)
     \<and> fullyMakeable (summarize reports) + partiallyMakeable (summarize reports)
         + notMakeable (summarize reports) = length reports
     \<and> fullyMakeable (summarize reports)
         = length (filter (\<lambda>a. availability a = Full) reports)
     \<and> partiallyMakeable (summarize reports)
         = length (filter (\<lambda>a. availability a = Partial) reports)
     \<and> notMakeable (summarize reports)
         = length (filter (\<lambda>a. availability a = NoneAvailable) reports)
     \<and> snd (summarizeStore analysis h) ! analysis = h ! analysis
     \<and> (\<forall>i. i < length h \<longrightarrow> snd (summarizeStore analysis h) ! i = h ! i)"
  by (simp add: summarizeStore_eq summarize_total nth_append) (simp add: summarize_def)

lemma mockAnalysis_summary:
  "summarize (analyzeRecipeAvailability getMockRecipes getMockInventory)
     = \<lparr> fullyMakeable = 1, partiallyMakeable = 3, notMakeable = 1 \<rparr>"
  by code_simp

theorem summarize_counts_witness:
  "(0::nat) < length [analyzeRecipeAvailability getMockRecipes getMockInventory]
   \<and> fst (summarizeStore 0 [analyzeRecipeAvailability getMockRecipes getMockInventory])
       = \<lparr> fullyMakeable = 1, partiallyMakeable = 3, notMakeable = 1 \<rparr>
   \<and> snd (summarizeStore 0 [analyzeRecipeAvailability getMockRecipes getMockInventory]) ! 0
       = analyzeRecipeAvailability getMockRecipes getMockInventory"
proof -
  have lt: "(0::nat) < length [analyzeRecipeAvailability getMockRecipes getMockInventory]"
    by simp
  from summarize_counts[OF lt] lt show ?thesis
    by (simp only: mockAnalysis_summary nth_Cons_0 simp_thms)
qed

subsection \<open>Sorting by makeability\<close>

lemma mset_insertSorted: "mset (insertSorted cmp x xs) = add_mset x (mset xs)"
  by (induction xs) auto

lemma mset_sortWith: "mset (sortWith cmp xs) = mset xs"
  by (induction xs) (auto simp: sortWith_def mset_insertSorted)

lemma set_insertSorted: "set (insertSorted cmp x xs) = insert x (set xs)"
  by (induction xs) auto

lemma availabilityOrder_inject:
  "(availabilityOrder a = availabilityOrder b) = (a = b)"
  by (cases a; cases b) (simp_all add: availabilityOrder_def)

lemma availabilityOrder_less_iff:
  "(availabilityOrder b < availabilityOrder a) = outranks a b"
  by (cases a; cases b) (simp_all add: availabilityOrder_def)

lemma compareReports_le_iff: "(compareReports a b \<le> 0) = rankedBefore a b"
proof (cases "availability a = availability b")
  case True
  then have "\<not> outranks (availability a) (availability b)"
    by (cases "availability b") simp_all
  with True show ?thesis by (simp add: compareReports_def rankedBefore_def)
next
  case False
  then have "availabilityOrder (availability a) \<noteq> availabilityOrder (availability b)"
    by (simp add: availabilityOrder_inject)
  with False show ?thesis
    using availabilityOrder_less_iff[of "availability b" "availability a"]
    by (auto simp add: compareReports_def rankedBefore_def Let_def)
qed

lemma compareReports_same_key:
  "availability a = availability b \<Longrightarrow> percentageAvailable a = percentageAvailable b
     \<Longrightarrow> compareReports a b = 0"
  by (simp add: compareReports_def)

lemma rankedBefore_total: "rankedBefore a b \<or> rankedBefore b a"
  by (cases "availability a"; cases "availability b") (auto simp: rankedBefore_def)

lemma rankedBefore_trans: "rankedBefore a b \<Longrightarrow> rankedBefore b c \<Longrightarrow> rankedBefore a c"
  by (cases "availability a"; cases "availability b"; cases "availability c")
     (auto simp: rankedBefore_def)

lemma sorted_insertSorted:
  "sorted_wrt rankedBefore xs \<Longrightarrow> sorted_wrt rankedBefore (insertSorted compareReports x xs)"
proof (induction xs)
  case Nil
  then show ?case by simp
next
  case (Cons y ys)
  show ?case
  proof (cases "compareReports x y \<le> 0")
    case True
    then have xy: "rankedBefore x y" by (simp add: compareReports_le_iff)
    have "\<forall>z\<in>set ys. rankedBefore x z"
      using Cons.prems xy by (auto intro: rankedBefore_trans)
    with True xy Cons.prems show ?thesis by simp
  next
    case False
    then have yx: "rankedBefore y x"
      using rankedBefore_total[of x y] by (simp add: compareReports_le_iff)
    from Cons.prems have "sorted_wrt rankedBefore ys" by simp
    then have "sorted_wrt rankedBefore (insertSorted compareReports x ys)" by (rule Cons.IH)
    with False yx Cons.prems show ?thesis by (simp add: set_insertSorted)
  qed
qed

lemma sorted_sortWith: "sorted_wrt rankedBefore (sortWith compareReports xs)"
  by (induction xs) (simp_all add: sortWith_def sorted_insertSorted)

lemma filter_insertSorted:
  assumes "\<And>y. P x \<Longrightarrow> P y \<Longrightarrow> cmp x y \<le> 0"
  shows "filter P (insertSorted cmp x xs) = (if P x then x # filter P xs else filter P xs)"
  using assms by (induction xs) auto

lemma filter_sortWith:
  assumes "\<And>x y. P x \<Longrightarrow> P y \<Longrightarrow> cmp x y \<le> 0"
  shows "filter P (sortWith cmp xs) = filter P xs"
proof (induction xs)
  case Nil
  then show ?case by (simp add: sortWith_def)
next
  case (Cons x xs)
  have "filter P (insertSorted cmp x (sortWith cmp xs))
      = (if P x then x # filter P (sortWith cmp xs) else filter P (sortWith cmp xs))"
    by (rule filter_insertSorted) (rule assms)
  with Cons.IH show ?case by (simp add: sortWith_def)
qed

lemma sortedByMakeability_stable:
  "filter (\<lambda>r. availability r = av \<and> percentageAvailable r = p) (sortedByMakeability xs)
     = filter (\<lambda>r. availability r = av \<and> percentageAvailable r = p) xs"
  unfolding sortedByMakeability_def
  by (rule filter_sortWith) (simp add: compareReports_same_key)

text \<open>
  Claim C6. The comparator ranks \<open>full\<close> 3, \<open>partial\<close> 2 and \<open>none\<close> 1. In the
  sorted reports every \<open>full\<close> report comes before every \<open>partial\<close> and
  \<open>none\<close> one and every \<open>partial\<close> report before every \<open>none\<close> one, and the
  reports of one availability are in descending order of percentage; they are the input
  reports, each as often as in the input; and the reports of one availability and one
  percentage are in the order the input has them.
\<close>

theorem sortedByMakeability_sorted_stable:
  "availabilityOrder Full = 3 \<and> availabilityOrder Partial = 2
   \<and> availabilityOrder NoneAvailable = 1
   \<and> sorted_wrt rankedBefore (sortedByMakeability reports)
   \<and> mset (sortedByMakeability reports) = mset reports
   \<and> filter (\<lambda>r. availability r = av \<and> percentageAvailable r = p)
        (sortedByMakeability reports)
     = filter (\<lambda>r. availability r = av \<and> percentageAvailable r = p) reports"
  by (simp add: sortedByMakeability_stable)
     (simp add: sortedByMakeability_def sorted_sortWith mset_sortWith availabilityOrder_def)

text \<open>
  On the mock recipes followed by the empty recipe, which the analyzer reports \<open>full\<close>
  at 0 percent: the empty recipe is sorted before the \<open>partial\<close> Margarita at 75
  percent, so the availability decides before the percentage does.
\<close>

lemma mockAnalysis_sorted_names:
  "map (\<lambda>a. (recipe_name (recipe a), availability a, percentageAvailable a))
     (sortedByMakeability
        (analyzeRecipeAvailability (getMockRecipes @ [emptyRecipe]) getMockInventory))
   = [(''Mojito'', Full, 100), (''Water'', Full, 0), (''Margarita'', Partial, 75),
      (''Moscow Mule'', Partial, 67), (''Gin and Tonic'', Partial, 33),
      (''Old Fashioned'', NoneAvailable, 0)]"
  by code_simp

theorem sortedByMakeability_sorted_stable_witness:
  "sorted_wrt rankedBefore
     (sortedByMakeability
        (analyzeRecipeAvailability (getMockRecipes @ [emptyRecipe]) getMockInventory))
   \<and> map (\<lambda>a. (recipe_name (recipe a), availability a, percentageAvailable a))
       (sortedByMakeability
          (analyzeRecipeAvailability (getMockRecipes @ [emptyRecipe]) getMockInventory))
     = [(''Mojito'', Full, 100), (''Water'', Full, 0), (''Margarita'', Partial, 75),
        (''Moscow Mule'', Partial, 67), (''Gin and Tonic'', Partial, 33),
        (''Old Fashioned'', NoneAvailable, 0)]"
  using sortedByMakeability_sorted_stable
          [of "analyzeRecipeAvailability (getMockRecipes @ [emptyRecipe]) getMockInventory"]
        mockAnalysis_sorted_names
  by blast

subsection \<open>The sort works on a copy\<close>

lemma sortedByMakeabilityStore_eq:
  "analysis < length h \<Longrightarrow>
     sortedByMakeabilityStore analysis h
       = (length h, h @ [sortedByMakeability (h ! analysis)])"
  by (simp add: sortedByMakeabilityStore_def spread_def alloc_def Array_sort_def
        sortedByMakeability_def nth_append)

text \<open>
  Claim C9. The sort is applied to a fresh copy of the array of reports: the array it
  returns is not the input array, the input array and every other array of the store are
  unchanged, and the returned array is a stable reordering of the input, with the same
  reports as often as in the input.
\<close>

theorem sort_leaves_input_unchanged:
  "analysis < length h \<Longrightarrow>
     fst (sortedByMakeabilityStore analysis h) \<noteq> analysis
     \<and> snd (sortedByMakeabilityStore analysis h) ! analysis = h ! analysis
     \<and> (\<forall>i. i < length h \<longrightarrow> snd (sortedByMakeabilityStore analysis h) ! i = h ! i)
     \<and> snd (sortedByMakeabilityStore analysis h) ! fst (sortedByMakeabilityStore analysis h)
         = sortedByMakeability (h ! analysis)
     \<and> mset (snd (sortedByMakeabilityStore analysis h)
               ! fst (sortedByMakeabilityStore analysis h))
         = mset (h ! analysis)
     \<and> filter (\<lambda>r. availability r = av \<and> percentageAvailable r = p)
          (snd (sortedByMakeabilityStore analysis h)
             ! fst (sortedByMakeabilityStore analysis h))
         = filter (\<lambda>r. availability r = av \<and> percentageAvailable r = p) (h ! analysis)"
  by (simp add: sortedByMakeabilityStore_eq nth_append sortedByMakeability_stable)
     (simp add: sortedByMakeability_def mset_sortWith)

theorem sort_leaves_input_unchanged_witness:
  "(0::nat) < length [analyzeRecipeAvailability getMockRecipes getMockInventory]
   \<and> snd (sortedByMakeabilityStore 0
            [analyzeRecipeAvailability getMockRecipes getMockInventory]) ! 0
       = analyzeRecipeAvailability getMockRecipes getMockInventory
   \<and> fst (sortedByMakeabilityStore 0
            [analyzeRecipeAvailability getMockRecipes getMockInventory]) \<noteq> 0"
proof -
  have lt: "(0::nat) < length [analyzeRecipeAvailability getMockRecipes getMockInventory]"
    by simp
  from sort_leaves_input_unchanged[OF lt] lt show ?thesis
    by (simp only: nth_Cons_0 simp_thms)
qed

end
